theory Spec2Isabelle
  imports Complex_Main
begin

section \<open>SimCLR on CIFAR-10: the contrastive training core of simclr.py\<close>

text \<open>
  The development embeds the functions of \<^verbatim>\<open>simclr.py\<close>: the paired dataset
  accessor, the contrastive loss \<^verbatim>\<open>nt_xent\<close>, the cosine schedule \<^verbatim>\<open>get_lr\<close> and the
  control flow of \<^verbatim>\<open>train\<close>. Tensors of floats are lists of reals (the arithmetic is the
  exact one, rounding is not modelled), index tensors and Python integers are \<open>int\<close>,
  and every raise of the source is a value of \<open>py_error\<close>.
\<close>

datatype py_error = AssertionError | ZeroDivisionError | IndexError | RuntimeError

subsection \<open>Tensors as lists\<close>

type_synonym vec = "real list"
type_synonym matrix = "real list list"

text \<open>\<^verbatim>\<open>torch.arange(n)\<close>: the integers \<open>0 .. n - 1\<close>.\<close>

definition arange :: "nat \<Rightarrow> int list" where
  "arange n = map int [0..<n]"

text \<open>
  The in-place slice update \<^verbatim>\<open>xs[start::step] += d\<close>: every position \<open>start\<close>,
  \<open>start + step\<close>, \<open>start + 2 * step\<close>, ... inside the tensor is changed, the others
  are kept.
\<close>

definition add_strided :: "nat \<Rightarrow> nat \<Rightarrow> int \<Rightarrow> int list \<Rightarrow> int list" where
  "add_strided start step d xs =
     map (\<lambda>i. if start \<le> i \<and> (i - start) mod step = 0 then xs ! i + d else xs ! i)
         [0..<length xs]"

subsection \<open>The contrastive loss: targets\<close>

text \<open>
  \<^verbatim>\<open>targets = torch.arange(x.size()[0]); targets[::2] += 1; targets[1::2] -= 1\<close>
\<close>

definition nt_xent_targets :: "matrix \<Rightarrow> int list" where
  "nt_xent_targets x =
     add_strided 1 2 (- 1) (add_strided 0 2 1 (arange (length x)))"

subsection \<open>The contrastive loss: scores\<close>

text \<open>
  \<^verbatim>\<open>F.normalize(x, dim=1)\<close> divides every row by its Euclidean norm, the norm
  clamped from below by \<open>eps = 1e-12\<close>.
\<close>

definition l2_norm :: "vec \<Rightarrow> real" where
  "l2_norm v = sqrt (sum_list (map (\<lambda>a. a * a) v))"

definition normalize_row :: "vec \<Rightarrow> vec" where
  "normalize_row v = map (\<lambda>a. a / max (l2_norm v) (1 / 10 ^ 12)) v"

definition normalize :: "matrix \<Rightarrow> matrix" where
  "normalize x = map normalize_row x"

definition dot :: "vec \<Rightarrow> vec \<Rightarrow> real" where
  "dot u v = sum_list (map (\<lambda>(a, b). a * b) (zip u v))"

text \<open>\<^verbatim>\<open>x @ x.t()\<close>: entry \<open>(i, j)\<close> is the inner product of rows \<open>i\<close> and \<open>j\<close>.\<close>

definition matmul_t :: "matrix \<Rightarrow> matrix" where
  "matmul_t x = map (\<lambda>u. map (\<lambda>v. dot u v) x) x"

text \<open>\<^verbatim>\<open>m.clamp(min=c)\<close>, elementwise.\<close>

definition clamp_min :: "real \<Rightarrow> matrix \<Rightarrow> matrix" where
  "clamp_min c m = map (map (\<lambda>a. max a c)) m"

definition div_scalar :: "matrix \<Rightarrow> real \<Rightarrow> matrix" where
  "div_scalar m t = map (map (\<lambda>a. a / t)) m"

definition mul_scalar :: "matrix \<Rightarrow> real \<Rightarrow> matrix" where
  "mul_scalar m c = map (map (\<lambda>a. a * c)) m"

text \<open>\<^verbatim>\<open>torch.eye(n)\<close>: the identity matrix.\<close>

definition eye :: "nat \<Rightarrow> matrix" where
  "eye n = map (\<lambda>i. map (\<lambda>j. if i = j then 1 else 0) [0..<n]) [0..<n]"

definition mat_sub :: "matrix \<Rightarrow> matrix \<Rightarrow> matrix" where
  "mat_sub a b = map (\<lambda>(u, v). map (\<lambda>(p, q). p - q) (zip u v)) (zip a b)"

text \<open>
  The three stages of \<^verbatim>\<open>nt_xent\<close> before the cross entropy. The source assigns
  \<^verbatim>\<open>x_scale\<close> twice; the second value is \<open>x_scale_masked\<close> here.
  \<^verbatim>\<open>
  x = F.normalize(x, dim=1)
  x_scores = (x @ x.t()).clamp(min=1e-7)
  x_scale = x_scores / t
  x_scale = x_scale - torch.eye(x_scale.size(0)).to(x_scale.device) * 1e5
  \<close>
\<close>

definition x_scores :: "matrix \<Rightarrow> matrix" where
  "x_scores x = clamp_min (1 / 10 ^ 7) (matmul_t (normalize x))"

definition x_scale :: "matrix \<Rightarrow> real \<Rightarrow> matrix" where
  "x_scale x t = div_scalar (x_scores x) t"

definition x_scale_masked :: "matrix \<Rightarrow> real \<Rightarrow> matrix" where
  "x_scale_masked x t =
     mat_sub (x_scale x t) (mul_scalar (eye (length (x_scale x t))) 100000)"

subsection \<open>The contrastive loss: cross entropy\<close>

text \<open>
  \<^verbatim>\<open>F.cross_entropy(input, target)\<close> with the default mean reduction: the mean over
  the rows of minus the logarithm of the softmax probability of the row's target class.
  A target outside \<open>0 .. C - 1\<close> (\<open>C\<close> the number of columns) is refused; the
  ignored target \<open>-100\<close> is not modelled, \<^verbatim>\<open>nt_xent\<close> never builds a negative one.
  The floats \<open>inf\<close> and \<open>nan\<close> have no real counterpart: the result \<open>NaN\<close> stands
  for them, as the mean over no rows does.
\<close>

datatype loss = Loss real | NaN

definition softmax :: "vec \<Rightarrow> vec" where
  "softmax row = map (\<lambda>a. exp a / sum_list (map exp row)) row"

definition n_classes :: "matrix \<Rightarrow> nat" where
  "n_classes m = (case m of [] \<Rightarrow> 0 | r # _ \<Rightarrow> length r)"

definition cross_entropy :: "matrix \<Rightarrow> int list \<Rightarrow> py_error + loss" where
  "cross_entropy input target =
     (if \<exists>c \<in> set target. c < 0 \<or> int (n_classes input) \<le> c then Inl IndexError
      else if input = [] then Inr NaN
      else Inr (Loss (sum_list (map (\<lambda>(row, c). - ln (softmax row ! nat c)) (zip input target))
                      / real (length input))))"

text \<open>
  \<^verbatim>\<open>def nt_xent(x, t=0.5)\<close>. Dividing the scores, all positive, by \<open>t = 0\<close> gives
  \<open>inf\<close> in every entry and a loss that is not a number.
\<close>

definition nt_xent :: "matrix \<Rightarrow> real \<Rightarrow> py_error + loss" where
  "nt_xent x t =
     (case cross_entropy (x_scale_masked x t) (nt_xent_targets x) of
        Inl e \<Rightarrow> Inl e
      | Inr l \<Rightarrow> if t = 0 then Inr NaN else Inr l)"

subsection \<open>The cosine schedule\<close>

text \<open>
  \<^verbatim>\<open>
  def get_lr(step, total_steps, lr_max, lr_min):
      return lr_min + (lr_max - lr_min) * 0.5 * (1 + np.cos(step / total_steps * np.pi))
  \<close>
  \<open>step\<close> and \<open>total_steps\<close> are Python integers: \<^verbatim>\<open>/\<close> is the true division and
  raises when the divisor is zero.
\<close>

definition get_lr :: "int \<Rightarrow> int \<Rightarrow> real \<Rightarrow> real \<Rightarrow> py_error + real" where
  "get_lr step total_steps lr_max lr_min =
     (if total_steps = 0 then Inl ZeroDivisionError
      else Inr (lr_min + (lr_max - lr_min) * 0.5 *
                  (1 + cos (real_of_int step / real_of_int total_steps * pi))))"

subsection \<open>The paired dataset\<close>

text \<open>
  Python indexing of a sequence: a negative index counts from the end, an index outside
  the sequence raises.
\<close>

definition py_index :: "'a list \<Rightarrow> int \<Rightarrow> py_error + 'a" where
  "py_index xs i =
     (if 0 \<le> i \<and> i < int (length xs) then Inr (xs ! nat i)
      else if i < 0 \<and> - int (length xs) \<le> i then Inr (xs ! nat (int (length xs) + i))
      else Inl IndexError)"

text \<open>
  \<^verbatim>\<open>class CIFAR10Pair(CIFAR10)\<close>: the stored images, their labels and the augmentation.
  The augmentation is stochastic: it reads and advances a generator state \<open>'g\<close>.
\<close>

record ('img, 'view, 'g) cifar10_pair =
  data :: "'img list"
  targets :: "int list"
  transform :: "'img \<Rightarrow> 'g \<Rightarrow> 'view \<times> 'g"

text \<open>
  \<^verbatim>\<open>
  def __getitem__(self, idx):
      img, target = self.data[idx], self.targets[idx]
      img = Image.fromarray(img)
      imgs = [self.transform(img), self.transform(img)]
      return torch.stack(imgs), target
  \<close>
  The stack of the two views is the two-element list of them.
\<close>

definition getitem ::
  "('img, 'view, 'g) cifar10_pair \<Rightarrow> int \<Rightarrow> 'g \<Rightarrow> py_error + (('view list \<times> int) \<times> 'g)" where
  "getitem ds idx g =
     (case py_index (data ds) idx of
        Inl e \<Rightarrow> Inl e
      | Inr img \<Rightarrow>
          (case py_index (targets ds) idx of
             Inl e \<Rightarrow> Inl e
           | Inr target \<Rightarrow>
               (case transform ds img g of
                  (v1, g1) \<Rightarrow>
                    (case transform ds img g1 of
                       (v2, g2) \<Rightarrow> Inr (([v1, v2], target), g2)))))"

text \<open>
  The data loader fetches the items of a batch's indices in order and stacks them along
  a new first axis: \<open>x\<close> has shape \<open>N \<times> 2 \<times> \<dots>\<close>, \<open>y\<close> has length \<open>N\<close>.
\<close>

fun collate ::
  "('img, 'view, 'g) cifar10_pair \<Rightarrow> int list \<Rightarrow> 'g \<Rightarrow>
   py_error + (('view list list \<times> int list) \<times> 'g)" where
  "collate ds [] g = Inr (([], []), g)"
| "collate ds (idx # idxs) g =
     (case getitem ds idx g of
        Inl e \<Rightarrow> Inl e
      | Inr ((pair, target), g1) \<Rightarrow>
          (case collate ds idxs g1 of
             Inl e \<Rightarrow> Inl e
           | Inr ((x, y), g2) \<Rightarrow> Inr ((pair # x, target # y), g2)))"

text \<open>
  \<^verbatim>\<open>sizes = x.size(); x = x.view(sizes[0] * 2, sizes[2], sizes[3], sizes[4])\<close>: the
  row-major reshape of an \<open>N \<times> 2 \<times> \<dots>\<close> tensor into \<open>2N \<times> \<dots>\<close>. The element count
  has to agree, so a second dimension other than 2 is refused.
\<close>

definition view_flat :: "'view list list \<Rightarrow> py_error + 'view list" where
  "view_flat x =
     (if list_all (\<lambda>pair. length pair = 2) x then Inr (concat x) else Inl RuntimeError)"

subsection \<open>The training loop\<close>

text \<open>The options of the configuration object that \<^verbatim>\<open>train\<close> reads.\<close>

record args =
  data_dir :: string
  batch_size :: int
  workers :: int
  backbone :: string
  projection_dim :: int
  learning_rate :: real
  momentum :: real
  weight_decay :: real
  temperature :: real
  epochs :: int
  log_interval :: int

text \<open>
  What \<^verbatim>\<open>train\<close> takes from outside: whether CUDA is there, the training set, the
  number of batches of the loader (\<^verbatim>\<open>len(train_loader)\<close>), the indices the shuffling
  sampler draws for batch \<open>i\<close> of an epoch, and the network: \<open>model k\<close> is the
  projection computed after \<open>k\<close> optimizer updates.
\<close>

record ('img, 'view, 'g) env =
  cuda_available :: bool
  train_set :: "('img, 'view, 'g) cifar10_pair"
  len_train_loader :: nat
  sampler :: "int \<Rightarrow> nat \<Rightarrow> int list"
  model :: "nat \<Rightarrow> 'view list \<Rightarrow> matrix"

text \<open>
  What \<^verbatim>\<open>train\<close> changes: the scheduler's step counter and its current factor, the
  generator of the augmentation, and the checkpoint files written so far.
\<close>

record 'g train_state =
  last_epoch :: nat
  lr_factor :: real
  rng :: 'g
  checkpoints :: "string list"

text \<open>
  The \<^verbatim>\<open>lr_lambda\<close> handed to \<^verbatim>\<open>LambdaLR\<close>:
  \<^verbatim>\<open>lambda step: get_lr(step, args.epochs * len(train_loader), args.learning_rate, 1e-3)\<close>
\<close>

definition lr_lambda :: "args \<Rightarrow> nat \<Rightarrow> int \<Rightarrow> py_error + real" where
  "lr_lambda a n step = get_lr step (epochs a * int n) (learning_rate a) (1 / 10 ^ 3)"

text \<open>
  One pass of the inner loop body: flatten, forward, loss, update, \<^verbatim>\<open>scheduler.step()\<close>.
  The scheduler increments its counter and evaluates \<^verbatim>\<open>lr_lambda\<close> at the new value. An
  exception leaves the state as it was when raised.
\<close>

definition train_step ::
  "('img, 'view, 'g) env \<Rightarrow> args \<Rightarrow> int list \<Rightarrow> 'g train_state \<Rightarrow>
   'g train_state \<times> py_error option" where
  "train_step env a idxs st =
     (case collate (train_set env) idxs (rng st) of
        Inl e \<Rightarrow> (st, Some e)
      | Inr ((x, y), g) \<Rightarrow>
          (case view_flat x of
             Inl e \<Rightarrow> (st\<lparr>rng := g\<rparr>, Some e)
           | Inr xf \<Rightarrow>
               (case nt_xent (model env (last_epoch st) xf) (temperature a) of
                  Inl e \<Rightarrow> (st\<lparr>rng := g\<rparr>, Some e)
                | Inr l \<Rightarrow>
                    (case lr_lambda a (len_train_loader env) (int (last_epoch st) + 1) of
                       Inl e \<Rightarrow> (st\<lparr>rng := g, last_epoch := last_epoch st + 1\<rparr>, Some e)
                     | Inr f \<Rightarrow>
                         (st\<lparr>rng := g, last_epoch := last_epoch st + 1, lr_factor := f\<rparr>,
                          None)))))"

text \<open>\<^verbatim>\<open>for x, y in train_bar\<close>: the batches of one epoch, in order.\<close>

fun run_batches ::
  "('img, 'view, 'g) env \<Rightarrow> args \<Rightarrow> int list list \<Rightarrow> 'g train_state \<Rightarrow>
   'g train_state \<times> py_error option" where
  "run_batches env a [] st = (st, None)"
| "run_batches env a (idxs # rest) st =
     (case train_step env a idxs st of
        (st1, Some e) \<Rightarrow> (st1, Some e)
      | (st1, None) \<Rightarrow> run_batches env a rest st1)"

definition epoch_batches :: "('img, 'view, 'g) env \<Rightarrow> int \<Rightarrow> int list list" where
  "epoch_batches env epoch = map (sampler env epoch) [0..<len_train_loader env]"

text \<open>\<^verbatim>\<open>str(n)\<close> for an integer: its decimal digits, with a sign when negative.\<close>

definition digit_char :: "nat \<Rightarrow> char" where
  "digit_char d = char_of (48 + d)"

function str_nat :: "nat \<Rightarrow> string" where
  "str_nat n = (if n < 10 then [digit_char n] else str_nat (n div 10) @ [digit_char (n mod 10)])"
  by pat_completeness auto
termination
  by (relation "measure (\<lambda>n. n)") auto

definition str_int :: "int \<Rightarrow> string" where
  "str_int i = (if i < 0 then CHR ''-'' # str_nat (nat (- i)) else str_nat (nat i))"

text \<open>\<^verbatim>\<open>'simclr_{}_epoch{}.pt'.format(args.backbone, epoch)\<close>\<close>

definition checkpoint_name :: "string \<Rightarrow> int \<Rightarrow> string" where
  "checkpoint_name b epoch = ''simclr_'' @ b @ ''_epoch'' @ str_int epoch @ ''.pt''"

text \<open>
  The end of an epoch:
  \<^verbatim>\<open>
  if epoch >= args.log_interval and epoch % args.log_interval == 0:
      torch.save(model.state_dict(), 'simclr_{}_epoch{}.pt'.format(args.backbone, epoch))
  \<close>
  \<^verbatim>\<open>and\<close> evaluates its right operand only when the left one holds; \<^verbatim>\<open>%\<close> raises on a
  zero divisor and otherwise takes the sign of the divisor, as \<open>mod\<close> on \<open>int\<close> does.
\<close>

definition save_checkpoint ::
  "args \<Rightarrow> int \<Rightarrow> 'g train_state \<Rightarrow> 'g train_state \<times> py_error option" where
  "save_checkpoint a epoch st =
     (if epoch \<ge> log_interval a then
        (if log_interval a = 0 then (st, Some ZeroDivisionError)
         else if epoch mod log_interval a = 0 then
           (st\<lparr>checkpoints := checkpoints st @ [checkpoint_name (backbone a) epoch]\<rparr>, None)
         else (st, None))
      else (st, None))"

text \<open>\<^verbatim>\<open>for epoch in range(1, args.epochs + 1)\<close>, over the list of the epochs left.\<close>

fun run_epochs ::
  "('img, 'view, 'g) env \<Rightarrow> args \<Rightarrow> int list \<Rightarrow> 'g train_state \<Rightarrow>
   'g train_state \<times> py_error option" where
  "run_epochs env a [] st = (st, None)"
| "run_epochs env a (epoch # rest) st =
     (case run_batches env a (epoch_batches env epoch) st of
        (st1, Some e) \<Rightarrow> (st1, Some e)
      | (st1, None) \<Rightarrow>
          (case save_checkpoint a epoch st1 of
             (st2, Some e) \<Rightarrow> (st2, Some e)
           | (st2, None) \<Rightarrow> run_epochs env a rest st2))"

text \<open>
  \<^verbatim>\<open>def train(args)\<close>. The two assertions come first. Constructing \<^verbatim>\<open>LambdaLR\<close>
  evaluates \<^verbatim>\<open>lr_lambda\<close> at step 0; then the epochs run.
\<close>

definition initial_state :: "'g \<Rightarrow> 'g train_state" where
  "initial_state g = \<lparr>last_epoch = 0, lr_factor = 1, rng = g, checkpoints = []\<rparr>"

definition train ::
  "('img, 'view, 'g) env \<Rightarrow> args \<Rightarrow> 'g \<Rightarrow> 'g train_state \<times> py_error option" where
  "train env a g =
     (if \<not> cuda_available env then (initial_state g, Some AssertionError)
      else if backbone a \<notin> set [''resnet18'', ''resnet34''] then
        (initial_state g, Some AssertionError)
      else
        (case lr_lambda a (len_train_loader env) 0 of
           Inl e \<Rightarrow> (initial_state g, Some e)
         | Inr f \<Rightarrow> run_epochs env a [1..epochs a] ((initial_state g)\<lparr>lr_factor := f\<rparr>)))"

subsection \<open>A small run\<close>

text \<open>
  A synthetic training set of four images, two batches of two pairs an epoch, and a
  network that maps the view of image \<open>i\<close> drawn at generator state \<open>d\<close> to the vector
  \<open>(i + 1, d)\<close>. An augmented view is the pair of its image and its draw.
\<close>

definition demo_set :: "(nat, nat \<times> nat, nat) cifar10_pair" where
  "demo_set = \<lparr>data = [0, 1, 2, 3], targets = [6, 9, 9, 4],
     transform = (\<lambda>img g. ((img, g), g + 1))\<rparr>"

definition demo_env :: "(nat, nat \<times> nat, nat) env" where
  "demo_env = \<lparr>cuda_available = True, train_set = demo_set, len_train_loader = 2,
     sampler = (\<lambda>epoch i. [2 * int i, 2 * int i + 1]),
     model = (\<lambda>k views. map (\<lambda>(img, d). [real img + 1, real d]) views)\<rparr>"

definition demo_args :: args where
  "demo_args = \<lparr>data_dir = ''data'', batch_size = 2, workers = 1, backbone = ''resnet18'',
     projection_dim = 2, learning_rate = 6 / 10, momentum = 9 / 10,
     weight_decay = 1 / 10 ^ 6, temperature = 1 / 2, epochs = 4, log_interval = 2\<rparr>"

section \<open>Properties\<close>

subsection \<open>Strided updates\<close>

lemma length_add_strided: "length (add_strided start step d xs) = length xs"
  by (simp add: add_strided_def)

lemma nth_add_strided:
  "i < length xs \<Longrightarrow>
   add_strided start step d xs ! i =
     (if start \<le> i \<and> (i - start) mod step = 0 then xs ! i + d else xs ! i)"
  by (simp add: add_strided_def)

lemma length_nt_xent_targets: "length (nt_xent_targets x) = length x"
  by (simp add: nt_xent_targets_def length_add_strided arange_def)

lemma nth_nt_xent_targets:
  assumes "i < length x"
  shows "nt_xent_targets x ! i = (if even i then int i + 1 else int i - 1)"
proof (cases "even i")
  case True
  then have "i mod 2 = 0" and "\<not> (1 \<le> i \<and> (i - 1) mod 2 = 0)"
    by presburger+
  with assms show ?thesis
    by (simp add: nt_xent_targets_def nth_add_strided length_add_strided arange_def True)
next
  case False
  then have "i mod 2 \<noteq> 0" and "1 \<le> i \<and> (i - 1) mod 2 = 0"
    by presburger+
  with assms show ?thesis
    by (simp add: nt_xent_targets_def nth_add_strided length_add_strided arange_def False)
qed

lemma nt_xent_targets_map:
  "nt_xent_targets x = map (\<lambda>i. if even i then int i + 1 else int i - 1) [0..<length x]"
  by (rule nth_equalityI) (simp_all add: length_nt_xent_targets nth_nt_xent_targets)

subsection \<open>Shape and entries of the score matrices\<close>

lemma length_x_scores: "length (x_scores x) = length x"
  by (simp add: x_scores_def clamp_min_def matmul_t_def normalize_def)

lemma length_x_scores_row: "i < length x \<Longrightarrow> length (x_scores x ! i) = length x"
  by (simp add: x_scores_def clamp_min_def matmul_t_def normalize_def)

lemma nth_x_scores:
  "i < length x \<Longrightarrow> j < length x \<Longrightarrow>
   x_scores x ! i ! j = max (dot (normalize_row (x ! i)) (normalize_row (x ! j))) (1 / 10 ^ 7)"
  by (simp add: x_scores_def clamp_min_def matmul_t_def normalize_def)

lemma length_x_scale: "length (x_scale x t) = length x"
  by (simp add: x_scale_def div_scalar_def length_x_scores)

lemma length_x_scale_row: "i < length x \<Longrightarrow> length (x_scale x t ! i) = length x"
  by (simp add: x_scale_def div_scalar_def length_x_scores length_x_scores_row)

lemma nth_x_scale:
  "i < length x \<Longrightarrow> j < length x \<Longrightarrow> x_scale x t ! i ! j = x_scores x ! i ! j / t"
  by (simp add: x_scale_def div_scalar_def length_x_scores length_x_scores_row)

lemma length_x_scale_masked: "length (x_scale_masked x t) = length x"
  by (simp add: x_scale_masked_def mat_sub_def mul_scalar_def eye_def length_x_scale)

lemma length_x_scale_masked_row:
  "i < length x \<Longrightarrow> length (x_scale_masked x t ! i) = length x"
  by (simp add: x_scale_masked_def mat_sub_def mul_scalar_def eye_def length_x_scale
      length_x_scale_row)

lemma nth_x_scale_masked:
  "i < length x \<Longrightarrow> j < length x \<Longrightarrow>
   x_scale_masked x t ! i ! j = x_scale x t ! i ! j - (if i = j then 100000 else 0)"
  by (simp add: x_scale_masked_def mat_sub_def mul_scalar_def eye_def length_x_scale
      length_x_scale_row)

lemma n_classes_nth: "n_classes m = (if m = [] then 0 else length (m ! 0))"
  by (cases m) (simp_all add: n_classes_def)

lemma n_classes_x_scale_masked: "n_classes (x_scale_masked x t) = length x"
proof (cases "x = []")
  case True
  then show ?thesis
    using length_x_scale_masked[of x t] by (simp add: n_classes_nth)
next
  case False
  then have "0 < length x" by simp
  moreover from this have "x_scale_masked x t \<noteq> []"
    using length_x_scale_masked[of x t] by auto
  ultimately show ?thesis
    by (simp add: n_classes_nth length_x_scale_masked_row)
qed

lemma targets_in_range_iff:
  "(\<exists>c \<in> set (nt_xent_targets x). c < 0 \<or> int (length x) \<le> c) \<longleftrightarrow> odd (length x)"
proof
  assume "\<exists>c \<in> set (nt_xent_targets x). c < 0 \<or> int (length x) \<le> c"
  then obtain i where i: "i < length x"
    and c: "nt_xent_targets x ! i < 0 \<or> int (length x) \<le> nt_xent_targets x ! i"
    by (auto simp: in_set_conv_nth length_nt_xent_targets)
  show "odd (length x)"
  proof (rule ccontr)
    assume "\<not> odd (length x)"
    then have "even (length x)" by simp
    with i c show False
      by (auto simp: nth_nt_xent_targets split: if_splits elim!: evenE oddE)
  qed
next
  assume o: "odd (length x)"
  then have "0 < length x" by (auto elim: oddE)
  with o have l: "length x - 1 < length x" and e: "even (length x - 1)" by simp_all
  have "nt_xent_targets x ! (length x - 1) = int (length x)"
    using l e by (simp add: nth_nt_xent_targets of_nat_diff)
  moreover have "nt_xent_targets x ! (length x - 1) \<in> set (nt_xent_targets x)"
    using l by (simp add: length_nt_xent_targets)
  ultimately show "\<exists>c \<in> set (nt_xent_targets x). c < 0 \<or> int (length x) \<le> c"
    by force
qed

lemma nt_xent_odd: "odd (length x) \<Longrightarrow> nt_xent x t = Inl IndexError"
  using targets_in_range_iff[of x]
  by (simp add: nt_xent_def cross_entropy_def n_classes_x_scale_masked)

lemma nt_xent_even: "even (length x) \<Longrightarrow> \<exists>l. nt_xent x t = Inr l"
  using targets_in_range_iff[of x]
  by (simp add: nt_xent_def cross_entropy_def n_classes_x_scale_masked)

lemma case_nt_xent_even:
  "even (length x) \<Longrightarrow> (case nt_xent x t of Inl e \<Rightarrow> P e | Inr l \<Rightarrow> Q) = Q"
  using nt_xent_even[of x t] by auto

subsection \<open>The target vector\<close>

text \<open>
  C1. For a representation matrix with an even number \<open>2N\<close> of rows, \<open>N \<ge> 1\<close>, the
  target vector of the loss has length \<open>2N\<close>, gives row \<open>2k\<close> the target \<open>2k + 1\<close>
  and row \<open>2k + 1\<close> the target \<open>2k\<close> for every \<open>k < N\<close>; for four rows it is
  \<open>[1, 0, 3, 2]\<close> and for six rows \<open>[1, 0, 3, 2, 5, 4]\<close>.
\<close>

theorem nt_xent_targets_partner:
  "(\<forall>x N k. length x = 2 * N \<and> 1 \<le> N \<and> k < N \<longrightarrow>
      length (nt_xent_targets x) = 2 * N \<and>
      nt_xent_targets x ! (2 * k) = int (2 * k + 1) \<and>
      nt_xent_targets x ! (2 * k + 1) = int (2 * k)) \<and>
   (\<forall>x. length x = 4 \<longrightarrow> nt_xent_targets x = [1, 0, 3, 2]) \<and>
   (\<forall>x. length x = 6 \<longrightarrow> nt_xent_targets x = [1, 0, 3, 2, 5, 4])"
proof (intro conjI allI impI)
  fix x :: matrix and N k
  assume h: "length x = 2 * N \<and> 1 \<le> N \<and> k < N"
  then show "length (nt_xent_targets x) = 2 * N"
    by (simp add: length_nt_xent_targets)
  from h have "2 * k < length x" and "2 * k + 1 < length x" by simp_all
  then show "nt_xent_targets x ! (2 * k) = int (2 * k + 1)"
    and "nt_xent_targets x ! (2 * k + 1) = int (2 * k)"
    by (simp_all add: nth_nt_xent_targets)
next
  fix x :: matrix
  assume "length x = 4"
  then show "nt_xent_targets x = [1, 0, 3, 2]"
    by (simp add: nt_xent_targets_map upt_rec)
next
  fix x :: matrix
  assume "length x = 6"
  then show "nt_xent_targets x = [1, 0, 3, 2, 5, 4]"
    by (simp add: nt_xent_targets_map upt_rec)
qed

theorem nt_xent_targets_partner_witness:
  "length [[1, 0], [0, 1], [1, 1], [2, 3 :: real]] = 2 * 2 \<and> (1::nat) \<le> 2 \<and> (1::nat) < 2 \<and>
   nt_xent_targets [[1, 0], [0, 1], [1, 1], [2, 3]] ! (2 * 1) = int (2 * 1 + 1) \<and>
   nt_xent_targets [[1, 0], [0, 1], [1, 1], [2, 3]] ! (2 * 1 + 1) = int (2 * 1) \<and>
   nt_xent_targets [[1, 0], [0, 1], [1, 1], [2, 3]] = [1, 0, 3, 2]"
  using nt_xent_targets_partner by simp

subsection \<open>The cosine schedule\<close>

lemma get_lr_value:
  "total_steps \<noteq> 0 \<Longrightarrow>
   get_lr step total_steps lr_max lr_min =
     Inr (lr_min + (lr_max - lr_min) * 0.5 *
            (1 + cos (real_of_int step / real_of_int total_steps * pi)))"
  by (simp add: get_lr_def)

lemma get_lr_start: "total_steps \<noteq> 0 \<Longrightarrow> get_lr 0 total_steps lr_max lr_min = Inr lr_max"
  by (simp add: get_lr_def field_simps)

lemma get_lr_end:
  "total_steps \<noteq> 0 \<Longrightarrow> get_lr total_steps total_steps lr_max lr_min = Inr lr_min"
  by (simp add: get_lr_def)

lemma get_lr_antimono:
  assumes "1 \<le> total_steps" "lr_min \<le> lr_max" "0 \<le> s1" "s1 \<le> s2" "s2 \<le> total_steps"
  shows "\<exists>v1 v2. get_lr s1 total_steps lr_max lr_min = Inr v1 \<and>
                 get_lr s2 total_steps lr_max lr_min = Inr v2 \<and> v2 \<le> v1"
proof -
  let ?T = "real_of_int total_steps"
  have T: "0 < ?T" using assms by simp
  have a: "0 \<le> real_of_int s1 / ?T * pi" using assms T by simp
  have b: "real_of_int s1 / ?T * pi \<le> real_of_int s2 / ?T * pi"
    using assms T by (simp add: divide_right_mono)
  have "real_of_int s2 / ?T \<le> 1" using assms T by simp
  then have c: "real_of_int s2 / ?T * pi \<le> pi"
    using mult_right_mono[of "real_of_int s2 / ?T" 1 pi] by simp
  have "cos (real_of_int s2 / ?T * pi) \<le> cos (real_of_int s1 / ?T * pi)"
    by (rule cos_monotone_0_pi_le[OF a b c])
  then have "(lr_max - lr_min) * 0.5 * (1 + cos (real_of_int s2 / ?T * pi))
      \<le> (lr_max - lr_min) * 0.5 * (1 + cos (real_of_int s1 / ?T * pi))"
    using assms(2) by (intro mult_left_mono) simp_all
  then show ?thesis using assms(1) by (simp add: get_lr_def)
qed

lemma get_lr_floor:
  assumes "total_steps \<noteq> 0" "lr_min \<le> lr_max"
    and "get_lr step total_steps lr_max lr_min = Inr v"
  shows "lr_min \<le> v"
proof -
  have "0 \<le> 1 + cos (real_of_int step / real_of_int total_steps * pi)"
    using cos_ge_minus_one[of "real_of_int step / real_of_int total_steps * pi"] by linarith
  then have "0 \<le> (lr_max - lr_min) * 0.5 *
      (1 + cos (real_of_int step / real_of_int total_steps * pi))"
    using assms(2) by (intro mult_nonneg_nonneg) simp_all
  then show ?thesis using assms(1,3) by (auto simp: get_lr_def)
qed

text \<open>
  C2. The factor of the scheduler at step 0 is meant to be 1. \<^verbatim>\<open>get_lr\<close> starts at
  \<open>lr_max\<close>, and \<^verbatim>\<open>train\<close> hands the configured learning rate to the optimizer as
  its rate and once more to \<^verbatim>\<open>lr_lambda\<close> as \<open>lr_max\<close>, under a comment that calls
  the value a multiplicative factor. With the learning rate 0.6, two epochs and five
  batches an epoch, the first factor is therefore 0.6 and not 1. The end value
  \<open>lr_min\<close> and the monotone decrease are \<open>get_lr_end\<close> and \<open>get_lr_antimono\<close>.
\<close>

theorem lr_lambda_start_factor:
  "(1::int) \<le> 2 * int 5 \<and> (1 / 10 ^ 3 :: real) \<le> 6 / 10 \<and>
   lr_lambda \<lparr>data_dir = ''data'', batch_size = 512, workers = 16, backbone = ''resnet18'',
      projection_dim = 128, learning_rate = 6 / 10, momentum = 9 / 10,
      weight_decay = 1 / 10 ^ 6, temperature = 1 / 2, epochs = 2, log_interval = 1\<rparr> 5 0
     = Inr (6 / 10) \<and>
   lr_lambda \<lparr>data_dir = ''data'', batch_size = 512, workers = 16, backbone = ''resnet18'',
      projection_dim = 128, learning_rate = 6 / 10, momentum = 9 / 10,
      weight_decay = 1 / 10 ^ 6, temperature = 1 / 2, epochs = 2, log_interval = 1\<rparr> 5 0
     \<noteq> Inr 1"
  by (simp add: lr_lambda_def get_lr_def)

text \<open>
  C6. For \<open>total_steps \<ge> 1\<close> and every step of \<open>[0, total_steps]\<close>, \<^verbatim>\<open>get_lr\<close> returns
  \<open>lr_min + (lr_max - lr_min) * 0.5 * (1 + cos (step / total_steps * pi))\<close>; at
  \<open>step = total_steps\<close> it returns \<open>lr_min\<close>, which no step goes below when
  \<open>lr_min \<le> lr_max\<close>; the scheduler of \<^verbatim>\<open>train\<close> passes the floor \<open>1e-3\<close>, which is
  not zero.
\<close>

theorem get_lr_cosine_formula:
  "1 \<le> total_steps \<Longrightarrow> 0 \<le> step \<Longrightarrow> step \<le> total_steps \<Longrightarrow>
   get_lr step total_steps lr_max lr_min =
     Inr (lr_min + (lr_max - lr_min) * 0.5 *
            (1 + cos (real_of_int step / real_of_int total_steps * pi))) \<and>
   get_lr total_steps total_steps lr_max lr_min = Inr lr_min \<and>
   (lr_min \<le> lr_max \<longrightarrow> (\<forall>v. get_lr step total_steps lr_max lr_min = Inr v \<longrightarrow> lr_min \<le> v)) \<and>
   (epochs a * int n = total_steps \<longrightarrow>
      lr_lambda a n total_steps = Inr (1 / 10 ^ 3) \<and> lr_lambda a n total_steps \<noteq> Inr 0)"
  using get_lr_floor[of total_steps lr_min lr_max step]
  by (simp add: get_lr_value get_lr_end lr_lambda_def)

theorem get_lr_cosine_formula_witness:
  "(1::int) \<le> 4 \<and> (0::int) \<le> 3 \<and> (3::int) \<le> 4 \<and>
   get_lr 3 4 (6 / 10) (1 / 1000) =
     Inr (1 / 1000 + (6 / 10 - 1 / 1000) * 0.5 * (1 + cos (3 / 4 * pi))) \<and>
   get_lr 4 4 (6 / 10) (1 / 1000) = Inr (1 / 1000) \<and>
   (\<exists>v. get_lr 3 4 (6 / 10) (1 / 1000) = Inr v \<and> 1 / 1000 \<le> v) \<and>
   lr_lambda demo_args 1 4 = Inr (1 / 10 ^ 3) \<and> lr_lambda demo_args 1 4 \<noteq> Inr 0"
proof -
  have e: "epochs demo_args * int 1 = 4" by (simp add: demo_args_def)
  have le: "(1 / 1000 :: real) \<le> 6 / 10" by simp
  have p: "(1::int) \<le> 4" "(0::int) \<le> 3" "(3::int) \<le> 4" by simp_all
  note t = get_lr_cosine_formula[OF p, where lr_max = "6 / 10" and lr_min = "1 / 1000"
      and a = demo_args and n = 1]
  from t have a: "get_lr 3 4 (6 / 10) (1 / 1000) =
     Inr (1 / 1000 + (6 / 10 - 1 / 1000) * 0.5 * (1 + cos (3 / 4 * pi)))" by simp
  from t have b: "get_lr 4 4 (6 / 10) (1 / 1000) = Inr (1 / 1000)" by simp
  from t le have c: "\<forall>v. get_lr 3 4 (6 / 10) (1 / 1000) = Inr v \<longrightarrow> 1 / 1000 \<le> v" by blast
  from t e have d: "lr_lambda demo_args 1 4 = Inr (1 / 10 ^ 3) \<and> lr_lambda demo_args 1 4 \<noteq> Inr 0"
    by blast
  from a c have "\<exists>v. get_lr 3 4 (6 / 10) (1 / 1000) = Inr v \<and> 1 / 1000 \<le> v" by blast
  with a b d show ?thesis by simp
qed

text \<open>
  C10. \<^verbatim>\<open>get_lr\<close> raises the division error exactly when \<open>total_steps = 0\<close>, and
  returns a value for every step when \<open>total_steps \<ge> 1\<close>. The scheduler of \<^verbatim>\<open>train\<close>
  passes \<open>epochs * len(train_loader)\<close>, which is zero exactly for zero epochs or an
  empty loader; \<^verbatim>\<open>train\<close> then stops with the division error when the scheduler is
  constructed.
\<close>

theorem get_lr_zero_division:
  "(get_lr step total_steps lr_max lr_min = Inl ZeroDivisionError \<longleftrightarrow> total_steps = 0) \<and>
   (1 \<le> total_steps \<longrightarrow> (\<exists>v. get_lr step total_steps lr_max lr_min = Inr v)) \<and>
   (lr_lambda a n step = Inl ZeroDivisionError \<longleftrightarrow> epochs a = 0 \<or> n = 0) \<and>
   (cuda_available env \<and> backbone a \<in> {''resnet18'', ''resnet34''} \<and>
      (epochs a = 0 \<or> len_train_loader env = 0) \<longrightarrow>
      train env a g = (initial_state g, Some ZeroDivisionError))"
  by (auto simp: get_lr_def lr_lambda_def train_def)

theorem get_lr_zero_division_witness:
  "get_lr 0 0 (6 / 10) (1 / 1000) = Inl ZeroDivisionError \<and>
   (1::int) \<le> 8 \<and> (\<exists>v. get_lr 3 8 (6 / 10) (1 / 1000) = Inr v) \<and>
   lr_lambda (demo_args\<lparr>epochs := 0\<rparr>) 2 0 = Inl ZeroDivisionError \<and>
   train (demo_env\<lparr>len_train_loader := 0\<rparr>) demo_args 0 = (initial_state 0, Some ZeroDivisionError)"
  using get_lr_zero_division[of 0 0 "6 / 10" "1 / 1000" "demo_args\<lparr>epochs := 0\<rparr>" 2
      "demo_env\<lparr>len_train_loader := 0\<rparr>" 0]
    get_lr_zero_division[of 3 8 "6 / 10" "1 / 1000" demo_args 2
      "demo_env\<lparr>len_train_loader := 0\<rparr>" 0]
  by (simp add: demo_env_def demo_args_def)

subsection \<open>Errors of the training loop\<close>

lemma py_index_error: "py_index xs i = Inl e \<Longrightarrow> e = IndexError"
  by (simp add: py_index_def split: if_splits)

lemma getitem_error: "getitem ds idx g = Inl e \<Longrightarrow> e = IndexError"
  by (auto simp: getitem_def split: sum.splits prod.splits dest: py_index_error)

lemma collate_error: "collate ds idxs g = Inl e \<Longrightarrow> e = IndexError"
proof (induction idxs arbitrary: g)
  case Nil
  then show ?case by simp
next
  case (Cons idx idxs)
  then show ?case
    by (auto split: sum.splits prod.splits dest: getitem_error)
qed

lemma view_flat_error: "view_flat x = Inl e \<Longrightarrow> e = RuntimeError"
  by (simp add: view_flat_def split: if_splits)

lemma cross_entropy_error: "cross_entropy m ts = Inl e \<Longrightarrow> e = IndexError"
  by (simp add: cross_entropy_def split: if_splits)

lemma nt_xent_error: "nt_xent x t = Inl e \<Longrightarrow> e = IndexError"
  by (auto simp: nt_xent_def split: sum.splits if_splits dest: cross_entropy_error)

lemma get_lr_error: "get_lr s n hi lo = Inl e \<Longrightarrow> e = ZeroDivisionError \<and> n = 0"
  by (simp add: get_lr_def split: if_splits)

lemma lr_lambda_error: "lr_lambda a n s = Inl e \<Longrightarrow> e = ZeroDivisionError"
  by (auto simp: lr_lambda_def dest: get_lr_error)

lemma train_step_error:
  "train_step env a idxs st = (st1, Some e) \<Longrightarrow> e \<noteq> AssertionError"
  by (auto simp: train_step_def split: sum.splits prod.splits
      dest: collate_error view_flat_error nt_xent_error lr_lambda_error)

lemma train_step_checkpoints:
  "train_step env a idxs st = (st1, r) \<Longrightarrow> checkpoints st1 = checkpoints st"
  by (auto simp: train_step_def split: sum.splits prod.splits)

lemma run_batches_error:
  "run_batches env a bs st = (st1, Some e) \<Longrightarrow> e \<noteq> AssertionError"
proof (induction bs arbitrary: st)
  case Nil
  then show ?case by simp
next
  case (Cons idxs bs)
  then show ?case
    by (auto split: prod.splits option.splits dest: train_step_error)
qed

lemma run_batches_checkpoints:
  "run_batches env a bs st = (st1, r) \<Longrightarrow> checkpoints st1 = checkpoints st"
proof (induction bs arbitrary: st)
  case Nil
  then show ?case by simp
next
  case (Cons idxs bs)
  then show ?case
    by (auto split: prod.splits option.splits dest: train_step_checkpoints)
qed

lemma save_checkpoint_error:
  "save_checkpoint a epoch st = (st1, Some e) \<Longrightarrow> e = ZeroDivisionError"
  by (simp add: save_checkpoint_def split: if_splits)

lemma run_epochs_error:
  "run_epochs env a es st = (st1, Some e) \<Longrightarrow> e \<noteq> AssertionError"
proof (induction es arbitrary: st)
  case Nil
  then show ?case by simp
next
  case (Cons epoch es)
  then show ?case
    by (auto split: prod.splits option.splits dest: run_batches_error save_checkpoint_error)
qed

lemma save_checkpoint_ok:
  "save_checkpoint a e st = (st1, None) \<Longrightarrow>
   checkpoints st1 = checkpoints st @ map (checkpoint_name (backbone a)) (filter (\<lambda>e. log_interval a \<le> e \<and> log_interval a dvd e) [e])"
  by (auto simp: save_checkpoint_def dvd_eq_mod_eq_0 split: if_splits)

lemma run_epochs_checkpoints:
  "run_epochs env a es st = (st1, None) \<Longrightarrow>
   checkpoints st1 = checkpoints st @
     map (checkpoint_name (backbone a)) (filter (\<lambda>e. log_interval a \<le> e \<and> log_interval a dvd e) es)"
proof (induction es arbitrary: st)
  case Nil
  then show ?case by simp
next
  case (Cons epoch es)
  from Cons.prems obtain st2 st3 where
    b: "run_batches env a (epoch_batches env epoch) st = (st2, None)" and
    s: "save_checkpoint a epoch st2 = (st3, None)" and
    r: "run_epochs env a es st3 = (st1, None)"
    by (auto split: prod.splits option.splits)
  have "checkpoints st2 = checkpoints st" using b by (rule run_batches_checkpoints)
  moreover note save_checkpoint_ok[OF s] Cons.IH[OF r]
  ultimately show ?case by simp
qed

text \<open>
  C8. Without CUDA, or with a backbone other than \<open>resnet18\<close> and \<open>resnet34\<close>,
  \<^verbatim>\<open>train\<close> stops with an assertion error in its initial state: no step has run and no
  checkpoint is written. With CUDA and a listed backbone, \<^verbatim>\<open>train\<close> never ends in an
  assertion error.
\<close>

theorem train_preconditions:
  "(\<not> cuda_available env \<or> backbone a \<notin> {''resnet18'', ''resnet34''} \<longrightarrow>
      train env a g = (initial_state g, Some AssertionError) \<and>
      last_epoch (initial_state g) = 0 \<and> checkpoints (initial_state g) = []) \<and>
   (cuda_available env \<and> backbone a \<in> {''resnet18'', ''resnet34''} \<longrightarrow>
      snd (train env a g) \<noteq> Some AssertionError)"
proof (rule conjI; rule impI)
  assume "\<not> cuda_available env \<or> backbone a \<notin> {''resnet18'', ''resnet34''}"
  then show "train env a g = (initial_state g, Some AssertionError) \<and>
      last_epoch (initial_state g) = 0 \<and> checkpoints (initial_state g) = []"
    by (auto simp: train_def initial_state_def)
next
  assume ok: "cuda_available env \<and> backbone a \<in> {''resnet18'', ''resnet34''}"
  show "snd (train env a g) \<noteq> Some AssertionError"
  proof (cases "lr_lambda a (len_train_loader env) 0")
    case (Inl e)
    with ok show ?thesis
      by (auto simp: train_def dest: lr_lambda_error)
  next
    case (Inr f)
    have "snd (run_epochs env a [1..epochs a] ((initial_state g)\<lparr>lr_factor := f\<rparr>))
        \<noteq> Some AssertionError"
      using run_epochs_error[of env a "[1..epochs a]" "(initial_state g)\<lparr>lr_factor := f\<rparr>"]
      by (cases "run_epochs env a [1..epochs a] ((initial_state g)\<lparr>lr_factor := f\<rparr>)") auto
    with ok Inr show ?thesis by (auto simp: train_def)
  qed
qed

theorem train_preconditions_witness:
  "train (demo_env\<lparr>cuda_available := False\<rparr>) demo_args 0 = (initial_state 0, Some AssertionError) \<and>
   train demo_env (demo_args\<lparr>backbone := ''vgg16''\<rparr>) 0 = (initial_state 0, Some AssertionError) \<and>
   cuda_available demo_env \<and> backbone demo_args \<in> {''resnet18'', ''resnet34''} \<and>
   snd (train demo_env demo_args 0) \<noteq> Some AssertionError"
  using train_preconditions[of "demo_env\<lparr>cuda_available := False\<rparr>" demo_args 0]
    train_preconditions[of demo_env "demo_args\<lparr>backbone := ''vgg16''\<rparr>" 0]
    train_preconditions[of demo_env demo_args 0]
  by (simp add: demo_env_def demo_args_def)

subsection \<open>Checkpoint names\<close>

lemma digit_char_inj: "d < 10 \<Longrightarrow> d' < 10 \<Longrightarrow> digit_char d = digit_char d' \<Longrightarrow> d = d'"
proof -
  assume a: "d < 10" "d' < 10" "digit_char d = digit_char d'"
  then have "(of_char (digit_char d) :: nat) = of_char (digit_char d')" by simp
  then have "(48 + d) mod 256 = (48 + d') mod 256"
    by (simp add: digit_char_def)
  with a(1,2) show "d = d'" by simp
qed

lemma str_nat_nonempty: "str_nat n \<noteq> []"
  by (subst str_nat.simps) simp

lemma str_nat_inj: "str_nat n = str_nat m \<Longrightarrow> n = m"
proof (induction n arbitrary: m rule: str_nat.induct)
  case (1 n)
  show ?case
  proof (cases "n < 10")
    case True
    show ?thesis
    proof (cases "m < 10")
      case m: True
      from "1.prems" True m have "digit_char n = digit_char m"
        by (simp add: str_nat.simps[of n] str_nat.simps[of m])
      with True m show ?thesis by (rule digit_char_inj)
    next
      case m: False
      from "1.prems" True m have "[digit_char n] = str_nat (m div 10) @ [digit_char (m mod 10)]"
        by (simp add: str_nat.simps[of n] str_nat.simps[of m])
      then show ?thesis using str_nat_nonempty[of "m div 10"] by simp
    qed
  next
    case False
    show ?thesis
    proof (cases "m < 10")
      case m: True
      from "1.prems" False m have "str_nat (n div 10) @ [digit_char (n mod 10)] = [digit_char m]"
        by (simp add: str_nat.simps[of n] str_nat.simps[of m])
      then show ?thesis using str_nat_nonempty[of "n div 10"] by simp
    next
      case m: False
      from "1.prems" False m
      have "str_nat (n div 10) @ [digit_char (n mod 10)] = str_nat (m div 10) @ [digit_char (m mod 10)]"
        by (simp add: str_nat.simps[of n] str_nat.simps[of m])
      then have a: "str_nat (n div 10) = str_nat (m div 10)"
        and b: "digit_char (n mod 10) = digit_char (m mod 10)" by simp_all
      from "1.IH"[OF False a] have c: "n div 10 = m div 10" .
      have d: "n mod 10 = m mod 10" by (rule digit_char_inj[OF _ _ b]) simp_all
      have "n = 10 * (n div 10) + n mod 10" by simp
      also have "\<dots> = 10 * (m div 10) + m mod 10" using c d by simp
      finally show ?thesis by simp
    qed
  qed
qed

lemma checkpoint_name_inj:
  "0 \<le> e \<Longrightarrow> 0 \<le> e' \<Longrightarrow> checkpoint_name b e = checkpoint_name b e' \<Longrightarrow> e = e'"
  by (auto simp: checkpoint_name_def str_int_def simp del: str_nat.simps dest: str_nat_inj)

subsection \<open>The small run, evaluated\<close>

lemma demo_collate:
  "collate demo_set [2 * int i, 2 * int i + 1] g =
     (if i < 2 then Inr (([[(2 * i, g), (2 * i, g + 1)], [(2 * i + 1, g + 2), (2 * i + 1, g + 3)]],
                          [targets demo_set ! (2 * i), targets demo_set ! (2 * i + 1)]), g + 4)
      else Inl IndexError)"
proof (cases "i < 2")
  case True
  then consider "i = 0" | "i = 1" by linarith
  then show ?thesis
    by cases (simp_all add: getitem_def py_index_def demo_set_def)
next
  case False
  then show ?thesis
    by (simp add: getitem_def py_index_def demo_set_def)
qed

lemma demo_step:
  assumes "i < 2"
  shows "train_step demo_env demo_args [2 * int i, 2 * int i + 1] st =
     (st\<lparr>rng := rng st + 4, last_epoch := last_epoch st + 1,
         lr_factor := 1 / 1000 + (6 / 10 - 1 / 1000) * 0.5 *
            (1 + cos ((real (last_epoch st) + 1) / 8 * pi))\<rparr>, None)"
proof -
  have ts: "train_set demo_env = demo_set" and n: "len_train_loader demo_env = 2"
    and m: "\<And>k v. model demo_env k v = map (\<lambda>(img, d). [real img + 1, real d]) v"
    by (simp_all add: demo_env_def)
  have l: "lr_lambda demo_args 2 (int (last_epoch st) + 1) =
      Inr (1 / 1000 + (6 / 10 - 1 / 1000) * 0.5 * (1 + cos ((real (last_epoch st) + 1) / 8 * pi)))"
    by (simp add: lr_lambda_def get_lr_def demo_args_def)
  show ?thesis
    unfolding train_step_def ts n
    using assms
    by (simp add: demo_collate view_flat_def m case_nt_xent_even l del: collate.simps)
qed

lemma demo_epoch:
  "run_batches demo_env demo_args (epoch_batches demo_env epoch) st =
     (st\<lparr>rng := rng st + 8, last_epoch := last_epoch st + 2,
         lr_factor := 1 / 1000 + (6 / 10 - 1 / 1000) * 0.5 *
            (1 + cos ((real (last_epoch st) + 2) / 8 * pi))\<rparr>, None)"
proof -
  have b: "epoch_batches demo_env epoch = [[0, 1], [2, 3]]"
    by (simp add: epoch_batches_def demo_env_def upt_rec)
  have s0: "\<And>s. train_step demo_env demo_args [0, 1] s =
     (s\<lparr>rng := rng s + 4, last_epoch := last_epoch s + 1,
         lr_factor := 1 / 1000 + (6 / 10 - 1 / 1000) * 0.5 *
            (1 + cos ((real (last_epoch s) + 1) / 8 * pi))\<rparr>, None)"
    using demo_step[of 0] by simp
  have s1: "\<And>s. train_step demo_env demo_args [2, 3] s =
     (s\<lparr>rng := rng s + 4, last_epoch := last_epoch s + 1,
         lr_factor := 1 / 1000 + (6 / 10 - 1 / 1000) * 0.5 *
            (1 + cos ((real (last_epoch s) + 1) / 8 * pi))\<rparr>, None)"
    using demo_step[of 1] by simp
  show ?thesis
    unfolding b by (simp add: s0 s1 add.commute)
qed

lemma demo_run:
  "train demo_env demo_args 0 =
     (\<lparr>last_epoch = 8, lr_factor = 1 / 1000, rng = 32,
       checkpoints = [''simclr_resnet18_epoch2.pt'', ''simclr_resnet18_epoch4.pt'']\<rparr>, None)"
proof -
  have n: "checkpoint_name ''resnet18'' 2 = ''simclr_resnet18_epoch2.pt''"
    "checkpoint_name ''resnet18'' 4 = ''simclr_resnet18_epoch4.pt''"
    by code_simp+
  have a: "cuda_available demo_env" "backbone demo_args = ''resnet18''"
    "len_train_loader demo_env = 2" "epochs demo_args = 4" "log_interval demo_args = 2"
    by (simp_all add: demo_env_def demo_args_def)
  have l: "lr_lambda demo_args 2 0 = Inr (6 / 10)"
    by (simp add: lr_lambda_def get_lr_def demo_args_def)
  have u: "[1..4::int] = [1, 2, 3, 4]" by (simp add: upto.simps)
  show ?thesis
    unfolding train_def a l u
    by (simp add: demo_epoch save_checkpoint_def a n initial_state_def)
qed

text \<open>
  C7. After an epoch \<open>e \<ge> 1\<close> with log interval \<open>L\<close> the loop writes a checkpoint
  exactly when \<open>e \<ge> L\<close> and \<open>L\<close> divides \<open>e\<close>; the file is named
  \<open>simclr_<backbone>_epoch<e>.pt\<close> with \<open>e\<close> in decimal, a name that determines the
  epoch; and a run of \<^verbatim>\<open>train\<close> that ends without error has written the checkpoints of
  exactly these epochs, in order.
\<close>

theorem save_checkpoint_iff:
  "1 \<le> e \<Longrightarrow>
   (log_interval a \<le> e \<and> log_interval a dvd e \<longrightarrow>
      save_checkpoint a e st =
        (st\<lparr>checkpoints := checkpoints st @ [checkpoint_name (backbone a) e]\<rparr>, None)) \<and>
   (\<not> (log_interval a \<le> e \<and> log_interval a dvd e) \<longrightarrow>
      checkpoints (fst (save_checkpoint a e st)) = checkpoints st) \<and>
   checkpoint_name (backbone a) e =
     ''simclr_'' @ backbone a @ ''_epoch'' @ str_nat (nat e) @ ''.pt'' \<and>
   (\<forall>e'. 1 \<le> e' \<and> checkpoint_name (backbone a) e' = checkpoint_name (backbone a) e \<longrightarrow> e' = e) \<and>
   (\<forall>env g st'. train env a g = (st', None) \<longrightarrow>
      checkpoints st' =
        map (checkpoint_name (backbone a))
          (filter (\<lambda>k. log_interval a \<le> k \<and> log_interval a dvd k) [1..epochs a]))"
proof (intro conjI allI impI)
  assume e: "1 \<le> e"
  {
    assume "log_interval a \<le> e \<and> log_interval a dvd e"
    moreover from this e have "log_interval a \<noteq> 0" by auto
    ultimately show "save_checkpoint a e st =
        (st\<lparr>checkpoints := checkpoints st @ [checkpoint_name (backbone a) e]\<rparr>, None)"
      by (simp add: save_checkpoint_def dvd_eq_mod_eq_0)
  }
  {
    assume "\<not> (log_interval a \<le> e \<and> log_interval a dvd e)"
    then show "checkpoints (fst (save_checkpoint a e st)) = checkpoints st"
      by (auto simp: save_checkpoint_def dvd_eq_mod_eq_0)
  }
  from e show "checkpoint_name (backbone a) e =
     ''simclr_'' @ backbone a @ ''_epoch'' @ str_nat (nat e) @ ''.pt''"
    by (simp add: checkpoint_name_def str_int_def del: str_nat.simps)
  {
    fix e'
    assume "1 \<le> e' \<and> checkpoint_name (backbone a) e' = checkpoint_name (backbone a) e"
    with e show "e' = e"
      using checkpoint_name_inj[of e' e "backbone a"] by simp
  }
  {
    fix env :: "('x, 'y, 'z) env" and g :: 'z and st' :: "'z train_state"
    assume t: "train env a g = (st', None)"
    then obtain f where
      r: "run_epochs env a [1..epochs a] ((initial_state g)\<lparr>lr_factor := f\<rparr>) = (st', None)"
      by (auto simp: train_def split: if_splits sum.splits)
    show "checkpoints st' =
        map (checkpoint_name (backbone a))
          (filter (\<lambda>k. log_interval a \<le> k \<and> log_interval a dvd k) [1..epochs a])"
      using run_epochs_checkpoints[OF r] by (simp add: initial_state_def)
  }
qed

theorem save_checkpoint_iff_witness:
  "(1::int) \<le> 4 \<and> log_interval demo_args \<le> 4 \<and> log_interval demo_args dvd 4 \<and>
   save_checkpoint demo_args 4 (initial_state (0::nat)) =
     ((initial_state 0)\<lparr>checkpoints := [''simclr_resnet18_epoch4.pt'']\<rparr>, None) \<and>
   \<not> (log_interval demo_args \<le> 3 \<and> log_interval demo_args dvd 3) \<and>
   checkpoints (fst (save_checkpoint demo_args 3 (initial_state (0::nat)))) = [] \<and>
   train demo_env demo_args 0 =
     (\<lparr>last_epoch = 8, lr_factor = 1 / 1000, rng = 32,
       checkpoints = [''simclr_resnet18_epoch2.pt'', ''simclr_resnet18_epoch4.pt'']\<rparr>, None) \<and>
   map (checkpoint_name (backbone demo_args))
     (filter (\<lambda>k. log_interval demo_args \<le> k \<and> log_interval demo_args dvd k)
        [1..epochs demo_args]) =
     [''simclr_resnet18_epoch2.pt'', ''simclr_resnet18_epoch4.pt'']"
proof -
  have l: "log_interval demo_args = 2" and b: "backbone demo_args = ''resnet18''"
    by (simp_all add: demo_args_def)
  have n: "checkpoint_name ''resnet18'' 4 = ''simclr_resnet18_epoch4.pt''"
    by code_simp
  have p4: "(1::int) \<le> 4" and p3: "(1::int) \<le> 3" by simp_all
  have d4: "log_interval demo_args \<le> 4 \<and> log_interval demo_args dvd 4"
    by (simp add: l)
  have d3: "\<not> (log_interval demo_args \<le> 3 \<and> log_interval demo_args dvd 3)"
    by (simp add: l)
  note t4 = save_checkpoint_iff[OF p4, where a = demo_args and st = "initial_state (0::nat)"]
  note t3 = save_checkpoint_iff[OF p3, where a = demo_args and st = "initial_state (0::nat)"]
  from t4 d4 have s4: "save_checkpoint demo_args 4 (initial_state (0::nat)) =
     ((initial_state 0)\<lparr>checkpoints := checkpoints (initial_state (0::nat)) @
        [checkpoint_name (backbone demo_args) 4]\<rparr>, None)"
    by blast
  from t3 d3 have s3: "checkpoints (fst (save_checkpoint demo_args 3 (initial_state (0::nat)))) =
      checkpoints (initial_state (0::nat))"
    by blast
  note r = t4[THEN conjunct2, THEN conjunct2, THEN conjunct2, THEN conjunct2, rule_format,
      OF demo_run]
  have f: "map (checkpoint_name (backbone demo_args))
     (filter (\<lambda>k. log_interval demo_args \<le> k \<and> log_interval demo_args dvd k)
        [1..epochs demo_args]) =
     [''simclr_resnet18_epoch2.pt'', ''simclr_resnet18_epoch4.pt'']"
    using r by simp
  have s4': "save_checkpoint demo_args 4 (initial_state (0::nat)) =
     ((initial_state 0)\<lparr>checkpoints := [''simclr_resnet18_epoch4.pt'']\<rparr>, None)"
    using s4 by (simp add: b n initial_state_def)
  have s3': "checkpoints (fst (save_checkpoint demo_args 3 (initial_state (0::nat)))) = []"
    using s3 by (simp add: initial_state_def)
  show ?thesis
    by (intro conjI p4 d4[THEN conjunct1] d4[THEN conjunct2] s4' d3 s3' demo_run f)
qed

subsection \<open>Flattening a batch of pairs\<close>

lemma concat_pairs:
  "list_all (\<lambda>pair. length pair = 2) x \<Longrightarrow>
   length (concat x) = 2 * length x \<and>
   (\<forall>k < length x. concat x ! (2 * k) = x ! k ! 0 \<and> concat x ! (2 * k + 1) = x ! k ! 1)"
proof (induction x)
  case Nil
  then show ?case by simp
next
  case (Cons p x)
  then have p: "length p = 2" and IH: "length (concat x) = 2 * length x"
    "\<And>k. k < length x \<Longrightarrow>
       concat x ! (2 * k) = x ! k ! 0 \<and> concat x ! (2 * k + 1) = x ! k ! 1"
    by simp_all
  show ?case
  proof (intro conjI allI impI)
    show "length (concat (p # x)) = 2 * length (p # x)" using p IH(1) by simp
  next
    fix k assume k: "k < length (p # x)"
    show "concat (p # x) ! (2 * k) = (p # x) ! k ! 0"
    proof (cases k)
      case 0
      then show ?thesis using p by (simp add: nth_append)
    next
      case (Suc j)
      then have "j < length x" using k by simp
      from IH(2)[OF this] show ?thesis using p Suc by (simp add: nth_append)
    qed
    show "concat (p # x) ! (2 * k + 1) = (p # x) ! k ! 1"
    proof (cases k)
      case 0
      then show ?thesis using p by (simp add: nth_append)
    next
      case (Suc j)
      then have "j < length x" using k by simp
      from IH(2)[OF this] show ?thesis using p Suc by (simp add: nth_append)
    qed
  qed
qed

lemma getitem_pair:
  "getitem ds idx g = Inr ((pair, target), g') \<Longrightarrow>
   \<exists>img. py_index (data ds) idx = Inr img \<and>
     pair = [fst (transform ds img g),
             fst (transform ds img (snd (transform ds img g)))]"
  by (auto simp: getitem_def split: sum.splits prod.splits)

lemma collate_pairs:
  "collate ds idxs g = Inr ((x, y), g') \<Longrightarrow>
   length x = length idxs \<and> list_all (\<lambda>pair. length pair = 2) x \<and>
   (\<forall>k < length idxs. \<exists>img g1. py_index (data ds) (idxs ! k) = Inr img \<and>
      x ! k = [fst (transform ds img g1),
               fst (transform ds img (snd (transform ds img g1)))])"
proof (induction idxs arbitrary: g x y)
  case Nil
  then show ?case by simp
next
  case (Cons idx idxs)
  from Cons.prems obtain pair target g1 x1 y1 where
    gi: "getitem ds idx g = Inr ((pair, target), g1)" and
    co: "collate ds idxs g1 = Inr ((x1, y1), g')" and
    x: "x = pair # x1"
    by (auto split: sum.splits prod.splits)
  from getitem_pair[OF gi] obtain img where
    img: "py_index (data ds) idx = Inr img"
      "pair = [fst (transform ds img g), fst (transform ds img (snd (transform ds img g)))]"
    by blast
  note IH = Cons.IH[OF co]
  show ?case
  proof (intro conjI allI impI)
    show "length x = length (idx # idxs)" using IH x by simp
    show "list_all (\<lambda>pair. length pair = 2) x" using IH x img(2) by simp
  next
    fix k assume k: "k < length (idx # idxs)"
    show "\<exists>img g1. py_index (data ds) ((idx # idxs) ! k) = Inr img \<and>
      x ! k = [fst (transform ds img g1), fst (transform ds img (snd (transform ds img g1)))]"
    proof (cases k)
      case 0
      then show ?thesis using img x by auto
    next
      case (Suc j)
      then have "j < length idxs" using k by simp
      with IH Suc x show ?thesis by simp
    qed
  qed
qed

text \<open>
  C3. A batch of \<open>N \<ge> 1\<close> stacked pairs is flattened to \<open>2N\<close> views, and for every
  \<open>k < N\<close> the views at positions \<open>2k\<close> and \<open>2k + 1\<close> are the two elements of pair
  \<open>k\<close>. For a batch fetched from the paired dataset both are augmentations of the one
  image stored at the \<open>k\<close>-th index of the batch, the second drawn after the first.
\<close>

theorem view_flat_pairs:
  "k < length x \<Longrightarrow>
   (list_all (\<lambda>pair. length pair = 2) x \<longrightarrow>
      (\<exists>flat. view_flat x = Inr flat \<and> length flat = 2 * length x \<and>
         flat ! (2 * k) = x ! k ! 0 \<and> flat ! (2 * k + 1) = x ! k ! 1)) \<and>
   (collate ds idxs g = Inr ((x, y), g') \<longrightarrow>
      length x = length idxs \<and>
      (\<exists>flat img g1. view_flat x = Inr flat \<and> length flat = 2 * length idxs \<and>
         py_index (data ds) (idxs ! k) = Inr img \<and>
         flat ! (2 * k) = fst (transform ds img g1) \<and>
         flat ! (2 * k + 1) = fst (transform ds img (snd (transform ds img g1)))))"
proof (rule conjI; rule impI)
  assume k: "k < length x"
  {
    assume a: "list_all (\<lambda>pair. length pair = 2) x"
    from concat_pairs[OF a] k a
    show "\<exists>flat. view_flat x = Inr flat \<and> length flat = 2 * length x \<and>
         flat ! (2 * k) = x ! k ! 0 \<and> flat ! (2 * k + 1) = x ! k ! 1"
      by (simp add: view_flat_def)
  }
  {
    assume c: "collate ds idxs g = Inr ((x, y), g')"
    note cp = collate_pairs[OF c]
    then have l: "length x = length idxs" and a: "list_all (\<lambda>pair. length pair = 2) x"
      by simp_all
    from cp k l obtain img g1 where
      i: "py_index (data ds) (idxs ! k) = Inr img"
        "x ! k = [fst (transform ds img g1), fst (transform ds img (snd (transform ds img g1)))]"
      by auto
    from concat_pairs[OF a] k have
      f: "length (concat x) = 2 * length x" "concat x ! (2 * k) = x ! k ! 0"
        "concat x ! (2 * k + 1) = x ! k ! 1"
      by simp_all
    have v: "view_flat x = Inr (concat x)" using a by (simp add: view_flat_def)
    show "length x = length idxs \<and>
      (\<exists>flat img g1. view_flat x = Inr flat \<and> length flat = 2 * length idxs \<and>
         py_index (data ds) (idxs ! k) = Inr img \<and>
         flat ! (2 * k) = fst (transform ds img g1) \<and>
         flat ! (2 * k + 1) = fst (transform ds img (snd (transform ds img g1))))"
      using l v f i by auto
  }
qed

theorem view_flat_pairs_witness:
  "(1::nat) < length [[(2::nat, 0::nat), (2, 1)], [(3, 2), (3, 3)]] \<and>
   list_all (\<lambda>pair. length pair = 2) [[(2::nat, 0::nat), (2, 1)], [(3, 2), (3, 3)]] \<and>
   collate demo_set [2, 3] 0 = Inr (([[(2, 0), (2, 1)], [(3, 2), (3, 3)]], [9, 4]), 4) \<and>
   (\<exists>flat. view_flat [[(2::nat, 0::nat), (2, 1)], [(3, 2), (3, 3)]] = Inr flat \<and>
      length flat = 2 * 2 \<and> flat ! (2 * 1) = (3, 2) \<and> flat ! (2 * 1 + 1) = (3, 3)) \<and>
   (\<exists>flat img g1.
      view_flat [[(2::nat, 0::nat), (2, 1)], [(3, 2), (3, 3)]] = Inr flat \<and>
      length flat = 2 * length [2, 3 :: int] \<and>
      py_index (data demo_set) ([2, 3] ! 1) = Inr img \<and>
      flat ! (2 * 1) = fst (transform demo_set img g1) \<and>
      flat ! (2 * 1 + 1) = fst (transform demo_set img (snd (transform demo_set img g1))))"
proof -
  let ?x = "[[(2::nat, 0::nat), (2, 1)], [(3, 2), (3, 3)]]"
  have k: "(1::nat) < length ?x" by simp
  have a: "list_all (\<lambda>pair. length pair = 2) ?x" by simp
  have c: "collate demo_set [2, 3] 0 = Inr ((?x, [9, 4]), 4)"
    using demo_collate[of 1 0] by (simp add: demo_set_def)
  note t = view_flat_pairs[OF k, where ds = demo_set and idxs = "[2, 3]" and g = 0
      and y = "[9, 4]" and g' = 4]
  from t a have s: "\<exists>flat. view_flat ?x = Inr flat \<and> length flat = 2 * length ?x \<and>
         flat ! (2 * 1) = ?x ! 1 ! 0 \<and> flat ! (2 * 1 + 1) = ?x ! 1 ! 1"
    by (rule conjunct1[THEN mp])
  then have s': "\<exists>flat. view_flat ?x = Inr flat \<and>
      length flat = 2 * 2 \<and> flat ! (2 * 1) = (3, 2) \<and> flat ! (2 * 1 + 1) = (3, 3)"
    by simp
  from t c have p: "length ?x = length [2, 3 :: int] \<and>
      (\<exists>flat img g1. view_flat ?x = Inr flat \<and> length flat = 2 * length [2, 3 :: int] \<and>
         py_index (data demo_set) ([2, 3] ! 1) = Inr img \<and>
         flat ! (2 * 1) = fst (transform demo_set img g1) \<and>
         flat ! (2 * 1 + 1) = fst (transform demo_set img (snd (transform demo_set img g1))))"
    by (rule conjunct2[THEN mp])
  show ?thesis
    by (intro conjI k a c s' p[THEN conjunct2])
qed

subsection \<open>Normalised rows and clamped scores\<close>

lemma dot_self: "dot v v = sum_list (map (\<lambda>a. a * a) v)"
  by (simp add: dot_def zip_same_conv_map comp_def)

lemma sum_squares_nonneg: "0 \<le> sum_list (map (\<lambda>a. a * a) (v :: real list))"
  by (rule sum_list_nonneg) auto

lemma l2_norm_nonneg: "0 \<le> l2_norm v"
  by (simp add: l2_norm_def sum_squares_nonneg)

lemma sum_squares_scaled:
  "sum_list (map (\<lambda>a. a * a) (map (\<lambda>a. a / m) v)) =
     sum_list (map (\<lambda>a. a * a) v) / (m * m :: real)"
  by (induction v) (simp_all add: add_divide_distrib)

lemma dot_normalize_row_self:
  "dot (normalize_row v) (normalize_row v) =
     (l2_norm v / max (l2_norm v) (1 / 10 ^ 12)) * (l2_norm v / max (l2_norm v) (1 / 10 ^ 12))"
proof -
  let ?m = "max (l2_norm v) (1 / 10 ^ 12)"
  let ?S = "sum_list (map (\<lambda>a. a * a) v)"
  have "dot (normalize_row v) (normalize_row v) = ?S / (?m * ?m)"
    by (simp only: dot_self normalize_row_def sum_squares_scaled)
  also have "?S = l2_norm v * l2_norm v"
    using sum_squares_nonneg[of v] by (simp add: l2_norm_def)
  finally show ?thesis by simp
qed

lemma dot_normalize_row_self_le_1: "dot (normalize_row v) (normalize_row v) \<le> 1"
proof -
  let ?m = "max (l2_norm v) (1 / 10 ^ 12)"
  have m: "0 < ?m" by simp
  have r: "0 \<le> l2_norm v / ?m" using l2_norm_nonneg[of v] m by simp
  have "l2_norm v \<le> ?m" by simp
  then have "l2_norm v / ?m \<le> 1" using m by (simp add: divide_le_eq_1)
  with r have "(l2_norm v / ?m) * (l2_norm v / ?m) \<le> 1 * 1"
    by (intro mult_mono) simp_all
  then show ?thesis by (simp add: dot_normalize_row_self)
qed

lemma l2_norm_normalize_row:
  "l2_norm (normalize_row v) = l2_norm v / max (l2_norm v) (1 / 10 ^ 12)"
proof -
  let ?m = "max (l2_norm v) (1 / 10 ^ 12)"
  have m: "0 < ?m" by simp
  have "l2_norm (normalize_row v) = sqrt (dot (normalize_row v) (normalize_row v))"
    by (simp add: l2_norm_def dot_self)
  also have "\<dots> = \<bar>l2_norm v / ?m\<bar>"
    by (simp only: dot_normalize_row_self real_sqrt_abs2)
  also have "\<dots> = l2_norm v / ?m"
    using l2_norm_nonneg[of v] m by simp
  finally show ?thesis .
qed

lemma dot_scaled:
  "dot (map (\<lambda>a. a / m) u) (map (\<lambda>b. b / n) v) =
     sum_list (map (\<lambda>(a, b). a * b) (zip u v)) / (m * n :: real)"
proof (induction u arbitrary: v)
  case Nil
  then show ?case by (simp add: dot_def)
next
  case (Cons a u)
  show ?case
  proof (cases v)
    case Nil
    then show ?thesis by (simp add: dot_def)
  next
    case (Cons b w)
    with Cons.IH[of w] show ?thesis
      by (simp add: dot_def add_divide_distrib)
  qed
qed

lemma sum_squares_normalize_row:
  assumes "1 / 10 ^ 12 \<le> l2_norm v"
  shows "sum_list (map (\<lambda>a. a * a) (normalize_row v)) = 1"
proof -
  from assms have m: "max (l2_norm v) (1 / 10 ^ 12) = l2_norm v" and nz: "l2_norm v \<noteq> 0"
    by simp_all
  have "sum_list (map (\<lambda>a. a * a) (normalize_row v)) = dot (normalize_row v) (normalize_row v)"
    by (simp add: dot_self)
  also have "\<dots> = (l2_norm v / l2_norm v) * (l2_norm v / l2_norm v)"
    by (simp only: dot_normalize_row_self m)
  finally show ?thesis using nz by simp
qed

text \<open>
  C5. \<^verbatim>\<open>nt_xent\<close> first divides every row by its Euclidean norm, the square root of
  the sum of its squares, clamped from below by \<open>1e-12\<close>; a row whose norm lies between
  \<open>1e-12\<close> and \<open>1e18\<close> becomes a row whose squares sum to 1. Then entry \<open>(i, j)\<close> of
  the square score matrix is the inner product of rows \<open>i\<close> and \<open>j\<close> over the product
  of their clamped norms, clamped from below by \<open>1e-7\<close>: it is at least \<open>1e-7\<close>, and
  equal to \<open>1e-7\<close> when the inner product is negative. Only then is the entry divided
  by the temperature.
\<close>

theorem x_scores_clamped:
  "i < length x \<Longrightarrow> j < length x \<Longrightarrow>
   l2_norm (x ! i) = sqrt (sum_list (map (\<lambda>a. a * a) (x ! i))) \<and>
   normalize x ! i =
     map (\<lambda>a. a / max (sqrt (sum_list (map (\<lambda>a. a * a) (x ! i)))) (1 / 10 ^ 12)) (x ! i) \<and>
   (1 / 10 ^ 12 \<le> sqrt (sum_list (map (\<lambda>a. a * a) (x ! i))) \<and>
    sqrt (sum_list (map (\<lambda>a. a * a) (x ! i))) \<le> 10 ^ 18 \<longrightarrow>
      sum_list (map (\<lambda>a. a * a) (normalize x ! i)) = 1) \<and>
   length (x_scores x) = length x \<and> length (x_scores x ! i) = length x \<and>
   x_scores x ! i ! j =
     max (sum_list (map (\<lambda>(a, b). a * b) (zip (x ! i) (x ! j))) /
            (max (sqrt (sum_list (map (\<lambda>a. a * a) (x ! i)))) (1 / 10 ^ 12) *
             max (sqrt (sum_list (map (\<lambda>a. a * a) (x ! j)))) (1 / 10 ^ 12)))
         (1 / 10 ^ 7) \<and>
   1 / 10 ^ 7 \<le> x_scores x ! i ! j \<and>
   (sum_list (map (\<lambda>(a, b). a * b) (zip (x ! i) (x ! j))) < 0 \<longrightarrow>
      x_scores x ! i ! j = 1 / 10 ^ 7) \<and>
   x_scale x t ! i ! j = x_scores x ! i ! j / t \<and>
   (0 < t \<longrightarrow> 1 / 10 ^ 7 / t \<le> x_scale x t ! i ! j)"
proof (intro conjI impI)
  assume i: "i < length x" and j: "j < length x"
  let ?mi = "max (sqrt (sum_list (map (\<lambda>a. a * a) (x ! i)))) (1 / 10 ^ 12)"
  let ?mj = "max (sqrt (sum_list (map (\<lambda>a. a * a) (x ! j)))) (1 / 10 ^ 12)"
  let ?d = "sum_list (map (\<lambda>(a, b). a * b) (zip (x ! i) (x ! j)))"
  have ni: "normalize x ! i = normalize_row (x ! i)" using i by (simp add: normalize_def)
  show "l2_norm (x ! i) = sqrt (sum_list (map (\<lambda>a. a * a) (x ! i)))"
    by (simp add: l2_norm_def)
  show "normalize x ! i = map (\<lambda>a. a / ?mi) (x ! i)"
    by (simp add: ni normalize_row_def l2_norm_def)
  show "length (x_scores x) = length x" by (rule length_x_scores)
  show "length (x_scores x ! i) = length x" using i by (rule length_x_scores_row)
  have "dot (normalize_row (x ! i)) (normalize_row (x ! j)) = ?d / (?mi * ?mj)"
    by (simp only: normalize_row_def l2_norm_def dot_scaled)
  then show e: "x_scores x ! i ! j = max (?d / (?mi * ?mj)) (1 / 10 ^ 7)"
    using i j by (simp only: nth_x_scores)
  then show f: "1 / 10 ^ 7 \<le> x_scores x ! i ! j" by simp
  show s: "x_scale x t ! i ! j = x_scores x ! i ! j / t" using i j by (rule nth_x_scale)
  {
    assume "1 / 10 ^ 12 \<le> sqrt (sum_list (map (\<lambda>a. a * a) (x ! i))) \<and>
      sqrt (sum_list (map (\<lambda>a. a * a) (x ! i))) \<le> 10 ^ 18"
    then have "1 / 10 ^ 12 \<le> l2_norm (x ! i)" by (simp add: l2_norm_def)
    then show "sum_list (map (\<lambda>a. a * a) (normalize x ! i)) = 1"
      unfolding ni by (rule sum_squares_normalize_row)
  }
  {
    assume neg: "?d < 0"
    have "0 < ?mi * ?mj" by (intro mult_pos_pos) simp_all
    with neg have "?d / (?mi * ?mj) < 0" by (simp add: divide_neg_pos)
    then show "x_scores x ! i ! j = 1 / 10 ^ 7" unfolding e by simp
  }
  {
    assume "0 < t"
    with f show "1 / 10 ^ 7 / t \<le> x_scale x t ! i ! j"
      by (simp only: s divide_right_mono less_imp_le)
  }
qed

lemma l2_norm_unit: "l2_norm [1, 0] = 1" "l2_norm [- 1, 0] = 1" "l2_norm [0, 1] = 1"
  by (simp_all add: l2_norm_def)

lemma normalize_unit:
  "normalize_row [1, 0] = [1, 0]" "normalize_row [- 1, 0] = [- 1, 0]"
  "normalize_row [0, 1] = [0, 1]"
  by (simp_all add: normalize_row_def l2_norm_unit)

lemma sqrt_25_100: "sqrt 25 = 5" "sqrt 100 = 10"
proof -
  have "sqrt (5 * 5) = \<bar>5\<bar>" by (rule real_sqrt_abs2)
  then show "sqrt 25 = 5" by simp
  have "sqrt (10 * 10) = \<bar>10\<bar>" by (rule real_sqrt_abs2)
  then show "sqrt 100 = 10" by simp
qed

theorem x_scores_clamped_witness:
  "(0::nat) < length [[3, 4], [- 6, - 8 :: real]] \<and> (1::nat) < length [[3, 4], [- 6, - 8 :: real]] \<and>
   l2_norm ([[3, 4], [- 6, - 8]] ! 0) = 5 \<and>
   normalize [[3, 4], [- 6, - 8]] ! 0 = [3 / 5, 4 / 5] \<and>
   sum_list (map (\<lambda>a. a * a) (normalize [[3, 4], [- 6, - 8]] ! 0)) = 1 \<and>
   sum_list (map (\<lambda>(a, b). a * b) (zip ([[3, 4], [- 6, - 8 :: real]] ! 0) ([[3, 4], [- 6, - 8]] ! 1)))
     = - 50 \<and>
   x_scores [[3, 4], [- 6, - 8]] ! 0 ! 1 = 1 / 10 ^ 7 \<and>
   x_scores [[3, 4], [- 6, - 8]] ! 0 ! 0 = 1 \<and>
   (0::real) < 1 / 2 \<and>
   x_scale [[3, 4], [- 6, - 8]] (1 / 2) ! 0 ! 1 = 2 / 10 ^ 7 \<and>
   1 / 10 ^ 7 / (1 / 2) \<le> x_scale [[3, 4], [- 6, - 8]] (1 / 2) ! 0 ! 1"
proof -
  let ?x = "[[3, 4], [- 6, - 8 :: real]]"
  have i: "(0::nat) < length ?x" and j: "(1::nat) < length ?x" by simp_all
  have q0: "sqrt (sum_list (map (\<lambda>a. a * a) (?x ! 0))) = 5"
    and q1: "sqrt (sum_list (map (\<lambda>a. a * a) (?x ! 1))) = 10"
    by (simp_all add: sqrt_25_100)
  have rng: "1 / 10 ^ 12 \<le> sqrt (sum_list (map (\<lambda>a. a * a) (?x ! 0))) \<and>
      sqrt (sum_list (map (\<lambda>a. a * a) (?x ! 0))) \<le> 10 ^ 18"
    unfolding q0 by simp
  have d: "sum_list (map (\<lambda>(a, b). a * b) (zip (?x ! 0) (?x ! 1))) = - 50" by simp
  then have neg: "sum_list (map (\<lambda>(a, b). a * b) (zip (?x ! 0) (?x ! 1))) < 0" by simp
  have d0: "sum_list (map (\<lambda>(a, b). a * b) (zip (?x ! 0) (?x ! 0))) = 25" by simp
  have t: "(0::real) < 1 / 2" by simp
  note c = x_scores_clamped[OF i j, where t = "1 / 2"]
  note c0 = x_scores_clamped[OF i i, where t = "1 / 2"]
  from c have n: "l2_norm (?x ! 0) = sqrt (sum_list (map (\<lambda>a. a * a) (?x ! 0)))" by blast
  then have n': "l2_norm (?x ! 0) = 5" unfolding q0 .
  from c have "normalize ?x ! 0 =
     map (\<lambda>a. a / max (sqrt (sum_list (map (\<lambda>a. a * a) (?x ! 0)))) (1 / 10 ^ 12)) (?x ! 0)"
    by blast
  then have nz: "normalize ?x ! 0 = [3 / 5, 4 / 5]" unfolding q0 by simp
  from c rng have u: "sum_list (map (\<lambda>a. a * a) (normalize ?x ! 0)) = 1" by blast
  from c neg have s: "x_scores ?x ! 0 ! 1 = 1 / 10 ^ 7" by blast
  from c0 have "x_scores ?x ! 0 ! 0 =
     max (sum_list (map (\<lambda>(a, b). a * b) (zip (?x ! 0) (?x ! 0))) /
            (max (sqrt (sum_list (map (\<lambda>a. a * a) (?x ! 0)))) (1 / 10 ^ 12) *
             max (sqrt (sum_list (map (\<lambda>a. a * a) (?x ! 0)))) (1 / 10 ^ 12)))
         (1 / 10 ^ 7)"
    by blast
  then have s0: "x_scores ?x ! 0 ! 0 = 1" unfolding q0 d0 by simp
  from c have sc: "x_scale ?x (1 / 2) ! 0 ! 1 = x_scores ?x ! 0 ! 1 / (1 / 2)" by blast
  from c t have lo: "1 / 10 ^ 7 / (1 / 2) \<le> x_scale ?x (1 / 2) ! 0 ! 1" by blast
  have sc': "x_scale ?x (1 / 2) ! 0 ! 1 = 2 / 10 ^ 7" unfolding sc s by simp
  show ?thesis
    by (intro conjI i j n' nz u d s s0 t sc' lo)
qed

subsection \<open>The suppressed diagonal\<close>

lemma exp_member_le_sum:
  "j < length row \<Longrightarrow> exp (row ! j) \<le> sum_list (map exp (row :: real list))"
proof -
  assume j: "j < length row"
  have "exp (row ! j) \<in> set (map exp row)" using j by simp
  moreover have "\<And>y. y \<in> set (map exp row) \<Longrightarrow> 0 \<le> y" by auto
  ultimately show ?thesis by (rule member_le_sum_list)
qed

lemma softmax_nth:
  "i < length row \<Longrightarrow> softmax row ! i = exp (row ! i) / sum_list (map exp row)"
  by (simp add: softmax_def)

lemma softmax_le_exp_diff:
  assumes "i < length row" "j < length row"
  shows "softmax row ! i \<le> exp (row ! i - row ! j)"
proof -
  let ?S = "sum_list (map exp row)"
  have p: "0 < exp (row ! j)" by simp
  have le: "exp (row ! j) \<le> ?S" using assms(2) by (rule exp_member_le_sum)
  from p le have S: "0 < ?S" by (rule less_le_trans)
  have "exp (row ! i) / ?S \<le> exp (row ! i) / exp (row ! j)"
    using le p S by (intro divide_left_mono mult_pos_pos) simp_all
  then show ?thesis using assms(1) by (simp add: softmax_nth exp_diff)
qed

lemma half_less_ratio: "0 < b \<Longrightarrow> b < a \<Longrightarrow> 1 / 2 < a / (a + (b :: real))"
proof -
  assume b: "0 < b" and ba: "b < a"
  then have "0 < a + b" by simp
  moreover have "1 / 2 * (a + b) < a" using ba by simp
  ultimately show ?thesis by (simp add: pos_less_divide_eq)
qed

lemma x_scores_diag_le_1: "i < length x \<Longrightarrow> x_scores x ! i ! i \<le> 1"
  using dot_normalize_row_self_le_1[of "x ! i"] by (simp add: nth_x_scores)

lemma x_scores_ge_floor: "i < length x \<Longrightarrow> j < length x \<Longrightarrow> 1 / 10 ^ 7 \<le> x_scores x ! i ! j"
  by (simp add: nth_x_scores)

lemma masked_self_softmax:
  assumes i: "i < length x" and j: "j < length x" and ij: "i \<noteq> j" and t: "0 < t"
  shows "softmax (x_scale_masked x t ! i) ! i \<le> exp (1 / t - 100000)"
proof -
  let ?row = "x_scale_masked x t ! i"
  have l: "length ?row = length x" using i by (rule length_x_scale_masked_row)
  have ri: "?row ! i = x_scores x ! i ! i / t - 100000"
    using i by (simp add: nth_x_scale_masked nth_x_scale)
  have rj: "?row ! j = x_scores x ! i ! j / t"
    using i j ij by (simp add: nth_x_scale_masked nth_x_scale)
  have "x_scores x ! i ! i / t \<le> 1 / t"
    using x_scores_diag_le_1[OF i] t by (simp add: divide_right_mono)
  moreover have "0 \<le> x_scores x ! i ! j / t"
    using x_scores_ge_floor[OF i j] t by simp
  ultimately have "?row ! i - ?row ! j \<le> 1 / t - 100000"
    unfolding ri rj by linarith
  moreover have "softmax ?row ! i \<le> exp (?row ! i - ?row ! j)"
    using i j l by (intro softmax_le_exp_diff) simp_all
  ultimately show ?thesis
    by (meson exp_le_cancel_iff order_trans)
qed

lemma masked_identity_row:
  "x_scale_masked [[1, 0], [0, 1]] t ! 0 = [1 / t - 100000, 1 / 10 ^ 7 / t]"
proof (rule nth_equalityI)
  show "length (x_scale_masked [[1, 0], [0, 1]] t ! 0) = length [1 / t - 100000, 1 / 10 ^ 7 / t]"
    by (simp add: length_x_scale_masked_row)
next
  fix k assume "k < length (x_scale_masked [[1, 0], [0, 1]] t ! 0)"
  then have "k < 2" by (simp add: length_x_scale_masked_row)
  then consider "k = 0" | "k = 1" by linarith
  then show "x_scale_masked [[1, 0], [0, 1]] t ! 0 ! k = [1 / t - 100000, 1 / 10 ^ 7 / t] ! k"
    by cases (simp_all add: nth_x_scale_masked nth_x_scale nth_x_scores normalize_unit dot_def)
qed

text \<open>
  C4. The constant \<open>1e5\<close> is subtracted from the diagonal of the scaled scores and
  from no other entry (\<open>nth_x_scale_masked\<close>), so that, as the comment of the source
  says, the diagonal entries are large negative values and become zeros after the
  softmax. The constant is subtracted after the division by the temperature and does
  not grow with it: at \<open>t = 1e-6\<close> the first row of the identity matrix has the logits
  \<open>900000\<close> (itself) and \<open>0.1\<close> (its partner), and its self-entry carries more than
  half of the softmax mass.
\<close>

theorem masked_diagonal_small_temperature:
  "(0::real) < 1 / 10 ^ 6 \<and>
   x_scale_masked [[1, 0], [0, 1]] (1 / 10 ^ 6) ! 0 = [900000, 1 / 10] \<and>
   1 / 2 < softmax (x_scale_masked [[1, 0], [0, 1]] (1 / 10 ^ 6) ! 0) ! 0"
proof -
  have r: "x_scale_masked [[1, 0], [0, 1]] (1 / 10 ^ 6) ! 0 = [900000, 1 / 10]"
    by (simp add: masked_identity_row)
  have "exp (1 / 10 :: real) < exp 900000" by simp
  then have "1 / 2 < exp (900000 :: real) / (exp 900000 + exp (1 / 10))"
    by (intro half_less_ratio) simp_all
  then have "1 / 2 < softmax [900000, 1 / 10] ! 0"
    by (simp add: softmax_def)
  with r show ?thesis by simp
qed

end
